theory Spec2Isabelle
  imports Main
begin

section \<open>Python values, log lines and collaborator calls\<close>

text \<open>
  The two modules verified here are \<^verbatim>\<open>rules_gate.py\<close> (trading windows, per-window trade
  counter, protected tickers) and \<^verbatim>\<open>orders.py\<close> (risk check, payload construction, dry-run
  or live dispatch). Both are embedded as pure functions. What the Python does besides
  returning a value is made explicit:
  \<^item> a raised exception is the \<open>Inl\<close> branch of a sum;
  \<^item> every logger call and every call of a collaborator that lives outside these two
    modules (\<^verbatim>\<open>check_risk_limits\<close>, \<^verbatim>\<open>enforce_limits\<close>, \<^verbatim>\<open>api_post\<close>,
    \<^verbatim>\<open>position_size_by_atr\<close>) is an entry of a trace, in program order;
  \<^item> the module-level dictionary \<^verbatim>\<open>_window_trades\<close> and the wall clock are threaded
    through as a state.
\<close>

datatype pyval =
    PNone
  | PBool bool
  | PInt int
  | PStr string
  | PList "pyval list"
  | PDict "(string \<times> pyval) list"

datatype level = INFO | ERROR

datatype exn =
    RuntimeError string
  | Raised string

datatype event =
    Log level string "pyval list"
  | Call_check_risk_limits
  | Call_enforce_limits bool
  | Call_api_post string pyval
  | Call_position_size_by_atr string

type_synonym 'a io = "event list \<times> (exn + 'a)"

text \<open>Lookup in a dict literal (an association list in insertion order).\<close>

definition dict_lookup :: "pyval \<Rightarrow> string \<Rightarrow> pyval option" where
  "dict_lookup d k = (case d of PDict kvs \<Rightarrow> map_of kvs k | _ \<Rightarrow> None)"

definition dict_keys :: "pyval \<Rightarrow> string list" where
  "dict_keys d = (case d of PDict kvs \<Rightarrow> map fst kvs | _ \<Rightarrow> [])"

text \<open>The message templates of the log lines of a trace, in order.\<close>

fun log_messages :: "event list \<Rightarrow> string list" where
  "log_messages [] = []"
| "log_messages (Log lv msg args # tr) = msg # log_messages tr"
| "log_messages (ev # tr) = log_messages tr"

section \<open>rules_gate.py\<close>

subsection \<open>Dates, times of day and the clock\<close>

text \<open>
  A \<^verbatim>\<open>datetime.time\<close> is (hour, minute, second, microsecond); naive times compare
  lexicographically on that tuple. A \<^verbatim>\<open>datetime.date\<close> is (year, month, day).
\<close>

type_synonym pytime = "nat \<times> nat \<times> nat \<times> nat"
type_synonym pydate = "nat \<times> nat \<times> nat"

record datetime =
  date_of :: pydate
  time_of :: pytime

fun time_le :: "pytime \<Rightarrow> pytime \<Rightarrow> bool" where
  "time_le (h1, m1, s1, u1) (h2, m2, s2, u2) =
     (h1 < h2 \<or> (h1 = h2 \<and> (m1 < m2 \<or> (m1 = m2 \<and> (s1 < s2 \<or> (s1 = s2 \<and> u1 \<le> u2))))))"

definition digit :: "nat \<Rightarrow> char" where
  "digit n = char_of (48 + n mod 10)"

text \<open>\<^verbatim>\<open>date.isoformat()\<close>: \<^verbatim>\<open>"%04d-%02d-%02d"\<close> (years are 1..9999).\<close>

fun isoformat :: "pydate \<Rightarrow> string" where
  "isoformat (y, m, d) =
     [digit (y div 1000), digit (y div 100), digit (y div 10), digit y] @ ''-'' @
     [digit (m div 10), digit m] @ ''-'' @
     [digit (d div 10), digit d]"

text \<open>
  The state of the module: how many times \<^verbatim>\<open>datetime.now(PT)\<close> has been called, and the
  dictionary \<^verbatim>\<open>_window_trades\<close>. The clock itself is a parameter: \<open>clock n\<close> is what
  the \<open>n\<close>-th call of \<^verbatim>\<open>datetime.now(PT)\<close> returns (wall time in America/Los_Angeles).
\<close>

type_synonym window_id = "string \<times> nat"

record gate_state =
  clock_reads :: nat
  window_trades :: "window_id \<Rightarrow> int option"

definition datetime_now :: "(nat \<Rightarrow> datetime) \<Rightarrow> gate_state \<Rightarrow> datetime \<times> gate_state" where
  "datetime_now clock s = (clock (clock_reads s), s\<lparr>clock_reads := Suc (clock_reads s)\<rparr>)"

text \<open>\<^verbatim>\<open>d.get(k, default)\<close>\<close>

definition dict_get :: "('k \<Rightarrow> 'v option) \<Rightarrow> 'k \<Rightarrow> 'v \<Rightarrow> 'v" where
  "dict_get d k dflt = (case d k of None \<Rightarrow> dflt | Some v \<Rightarrow> v)"

subsection \<open>Module constants\<close>

definition TRADE_WINDOWS :: "(pytime \<times> pytime) list" where
  "TRADE_WINDOWS = [((6, 30, 0, 0), (7, 30, 0, 0)), ((12, 0, 0, 0), (13, 0, 0, 0))]"

definition MAX_TRADES_PER_WINDOW :: int where
  "MAX_TRADES_PER_WINDOW = 2"

definition PROTECTED_NEVER_SELL :: "string set" where
  "PROTECTED_NEVER_SELL = {''CWH''}"

subsection \<open>str.upper\<close>

text \<open>
  \<^verbatim>\<open>str.upper()\<close> on ASCII text: the letters a..z go to A..Z and every other character
  stays. Ticker symbols are ASCII; the model says nothing about other text.
\<close>

definition upper_char :: "char \<Rightarrow> char" where
  "upper_char c =
     (let n = (of_char c :: nat) in if 97 \<le> n \<and> n \<le> 122 then char_of (n - 32) else c)"

definition upper :: "string \<Rightarrow> string" where
  "upper s = map upper_char s"

subsection \<open>in_window, window_key, allow_order, record_order\<close>

text \<open>
  \<^verbatim>\<open>
  def in_window(now=None):
      now = now or datetime.now(PT).time()
      return any(start <= now <= end for start, end in TRADE_WINDOWS)
  \<close>
  A \<^verbatim>\<open>time\<close> object is always truthy, so \<^verbatim>\<open>now or ...\<close> reads the clock exactly when
  no argument was given.
\<close>

definition in_window_at :: "pytime \<Rightarrow> bool" where
  "in_window_at now = list_ex (\<lambda>(start, stop). time_le start now \<and> time_le now stop) TRADE_WINDOWS"

definition in_window :: "(nat \<Rightarrow> datetime) \<Rightarrow> gate_state \<Rightarrow> pytime option \<Rightarrow> bool \<times> gate_state" where
  "in_window clock s now_arg =
     (case now_arg of
        Some now \<Rightarrow> (in_window_at now, s)
      | None \<Rightarrow> (let (dt, s') = datetime_now clock s in (in_window_at (time_of dt), s')))"

text \<open>
  \<^verbatim>\<open>
  def window_key(dt=None):
      dt = dt or datetime.now(PT)
      for idx, (start, end) in enumerate(TRADE_WINDOWS):
          if start <= dt.time() <= end:
              return (dt.date().isoformat(), idx)
      return None
  \<close>
  The loop over \<^verbatim>\<open>enumerate(TRADE_WINDOWS)\<close> is the recursion \<open>window_key_loop\<close>, which
  carries the index.
\<close>

fun window_key_loop :: "nat \<Rightarrow> (pytime \<times> pytime) list \<Rightarrow> datetime \<Rightarrow> window_id option" where
  "window_key_loop idx [] dt = None"
| "window_key_loop idx ((start, stop) # ws) dt =
     (if time_le start (time_of dt) \<and> time_le (time_of dt) stop
      then Some (isoformat (date_of dt), idx)
      else window_key_loop (Suc idx) ws dt)"

definition window_key_at :: "datetime \<Rightarrow> window_id option" where
  "window_key_at dt = window_key_loop 0 TRADE_WINDOWS dt"

definition window_key :: "(nat \<Rightarrow> datetime) \<Rightarrow> gate_state \<Rightarrow> datetime option \<Rightarrow> window_id option \<times> gate_state" where
  "window_key clock s dt_arg =
     (case dt_arg of
        Some dt \<Rightarrow> (window_key_at dt, s)
      | None \<Rightarrow> (let (dt, s') = datetime_now clock s in (window_key_at dt, s')))"

text \<open>
  \<^verbatim>\<open>
  def allow_order(symbol, side):
      if not in_window():
          return False, "outside_playbook_window"
      if side == "Sell" and symbol.upper() in PROTECTED_NEVER_SELL:
          return False, "protected_ticker_never_sell"
      wk = window_key()
      if wk:
          count = _window_trades.get(wk, 0)
          if count >= MAX_TRADES_PER_WINDOW:
              return False, "max_trades_this_window"
      return True, ""
  \<close>
  \<^verbatim>\<open>in_window()\<close> and \<^verbatim>\<open>window_key()\<close> each read the clock. A key is a non-empty tuple,
  so \<^verbatim>\<open>if wk\<close> tests for \<^verbatim>\<open>None\<close>.
\<close>

definition allow_order ::
  "(nat \<Rightarrow> datetime) \<Rightarrow> gate_state \<Rightarrow> string \<Rightarrow> string \<Rightarrow> (bool \<times> string) \<times> gate_state" where
  "allow_order clock s symbol side =
     (let (inw, s1) = in_window clock s None in
      if \<not> inw then ((False, ''outside_playbook_window''), s1)
      else if side = ''Sell'' \<and> upper symbol \<in> PROTECTED_NEVER_SELL
        then ((False, ''protected_ticker_never_sell''), s1)
      else
        (let (wk, s2) = window_key clock s1 None in
         case wk of
           Some k \<Rightarrow>
             (let count = dict_get (window_trades s2) k 0 in
              if count \<ge> MAX_TRADES_PER_WINDOW
              then ((False, ''max_trades_this_window''), s2)
              else ((True, ''''), s2))
         | None \<Rightarrow> ((True, ''''), s2)))"

text \<open>
  \<^verbatim>\<open>
  def record_order():
      wk = window_key()
      if wk:
          _window_trades[wk] = _window_trades.get(wk, 0) + 1
  \<close>
\<close>

definition record_order :: "(nat \<Rightarrow> datetime) \<Rightarrow> gate_state \<Rightarrow> gate_state" where
  "record_order clock s =
     (let (wk, s1) = window_key clock s None in
      case wk of
        Some k \<Rightarrow> s1\<lparr>window_trades := (window_trades s1)(k \<mapsto> dict_get (window_trades s1) k 0 + 1)\<rparr>
      | None \<Rightarrow> s1)"

text \<open>
  Modelled from the spec: the caller of \<^verbatim>\<open>allow_order\<close> and \<^verbatim>\<open>record_order\<close> is not part
  of the two modules. The specification says that on admission the gate records the
  trade exactly once, and that intents are evaluated one after the other;
  \<open>gate_intent\<close> and \<open>gate_intents\<close> are that protocol.
\<close>

definition gate_intent ::
  "(nat \<Rightarrow> datetime) \<Rightarrow> gate_state \<Rightarrow> string \<times> string \<Rightarrow> (bool \<times> string) \<times> gate_state" where
  "gate_intent clock s intent =
     (let (r, s1) = allow_order clock s (fst intent) (snd intent) in
      if fst r then (r, record_order clock s1) else (r, s1))"

fun gate_intents ::
  "(nat \<Rightarrow> datetime) \<Rightarrow> gate_state \<Rightarrow> (string \<times> string) list \<Rightarrow> (bool \<times> string) list \<times> gate_state" where
  "gate_intents clock s [] = ([], s)"
| "gate_intents clock s (i # is) =
     (let (r, s1) = gate_intent clock s i;
          (rs, s2) = gate_intents clock s1 is
      in (r # rs, s2))"

section \<open>orders.py\<close>

text \<open>
  The configuration module is not part of the sources; its values are the fields of
  \<open>config\<close>. \<open>MAX_POS_SIZE\<close> is the value of \<^verbatim>\<open>int(MAX_POS_SIZE)\<close>, and the four flags are
  the truth values that \<^verbatim>\<open>if FLAG:\<close> sees.
\<close>

record config =
  ACCOUNT_ID :: pyval
  MAX_POS_SIZE :: int
  KILL_SWITCH :: bool
  AUTO_LIQUIDATE :: bool
  DRY_RUN :: bool
  OFFLINE_MODE :: bool

text \<open>
  The collaborators \<^verbatim>\<open>risk.check_risk_limits\<close>, \<^verbatim>\<open>risk.enforce_limits\<close> and
  \<^verbatim>\<open>client.api_post\<close> are not part of the sources either. \<open>broker\<close> holds what each of
  them answers when called: a value, or an exception (\<open>Inl\<close>, \<open>Some\<close> for
  \<open>enforce_limits\<close>, whose value is discarded). \<^verbatim>\<open>orders.py\<close> catches no exception, so
  one raised by a collaborator leaves the calling function.
\<close>

record broker =
  check_risk_limits :: "exn + bool \<times> pyval"
  enforce_limits :: "bool \<Rightarrow> exn option"
  api_post :: "string \<Rightarrow> pyval \<Rightarrow> exn + pyval"

text \<open>
  \<^verbatim>\<open>
  def risk_ok(symbol, qty, price=None):
      if KILL_SWITCH:
          logger.error("Kill switch active - blocking orders")
          return False
      if abs(int(qty)) > int(MAX_POS_SIZE):
          logger.error("Qty %s exceeds MAX_POS_SIZE %s", qty, MAX_POS_SIZE)
          return False
      if OFFLINE_MODE:
          logger.info("OFFLINE_MODE=true -> skipping broker risk checks")
          return True
      ok, reasons = check_risk_limits()
      if not ok:
          logger.error("Risk limits breached: %s", reasons)
          if AUTO_LIQUIDATE:
              enforce_limits(auto_liquidate=True)
          return False
      return True
  \<close>
  The quantity is an integer (\<^verbatim>\<open>place_equity_market\<close> has applied \<^verbatim>\<open>int\<close> already).
\<close>

definition risk_ok :: "config \<Rightarrow> broker \<Rightarrow> string \<Rightarrow> int \<Rightarrow> bool io" where
  "risk_ok cfg brk symbol qty =
     (if KILL_SWITCH cfg then
        ([Log ERROR ''Kill switch active - blocking orders'' []], Inr False)
      else if \<bar>qty\<bar> > MAX_POS_SIZE cfg then
        ([Log ERROR ''Qty %s exceeds MAX_POS_SIZE %s'' [PInt qty, PInt (MAX_POS_SIZE cfg)]], Inr False)
      else if OFFLINE_MODE cfg then
        ([Log INFO ''OFFLINE_MODE=true -> skipping broker risk checks'' []], Inr True)
      else
        (case check_risk_limits brk of
           Inl e \<Rightarrow> ([Call_check_risk_limits], Inl e)
         | Inr (ok, reasons) \<Rightarrow>
             if \<not> ok then
               (let tr = [Call_check_risk_limits, Log ERROR ''Risk limits breached: %s'' [reasons]] in
                if AUTO_LIQUIDATE cfg then
                  (case enforce_limits brk True of
                     Some e \<Rightarrow> (tr @ [Call_enforce_limits True], Inl e)
                   | None \<Rightarrow> (tr @ [Call_enforce_limits True], Inr False))
                else (tr, Inr False))
             else ([Call_check_risk_limits], Inr True)))"

text \<open>
  \<^verbatim>\<open>
  def _simulate_order(payload):
      logger.info("[DRY_RUN] Simulated order: %s", payload)
      return {"status":"simulated","payload":payload}
  \<close>
\<close>

definition simulate_order :: "pyval \<Rightarrow> event list \<times> pyval" where
  "simulate_order payload =
     ([Log INFO ''[DRY_RUN] Simulated order: %s'' [payload]],
      PDict [(''status'', PStr ''simulated''), (''payload'', payload)])"

text \<open>
  \<^verbatim>\<open>
  def place_equity_market(symbol, qty):
      qty = int(qty)
      if not risk_ok(symbol, qty):
          raise RuntimeError("Risk check failed - order blocked")
      payload = {
          "accountId": ACCOUNT_ID,
          "orderType": "Market",
          "instrument": {"symbol": symbol, "assetType": "EQ"},
          "quantity": abs(qty),
          "instruction": "Buy" if qty > 0 else "Sell",
      }
      logger.info("Placing market order: %s", payload)
      if DRY_RUN:
          return _simulate_order(payload)
      return api_post("/v1/accounts/orders", payload)
  \<close>
  \<open>order_payload\<close> is the dict literal.
\<close>

definition order_payload :: "config \<Rightarrow> string \<Rightarrow> int \<Rightarrow> pyval" where
  "order_payload cfg symbol qty =
     PDict [(''accountId'', ACCOUNT_ID cfg),
            (''orderType'', PStr ''Market''),
            (''instrument'', PDict [(''symbol'', PStr symbol), (''assetType'', PStr ''EQ'')]),
            (''quantity'', PInt \<bar>qty\<bar>),
            (''instruction'', PStr (if qty > 0 then ''Buy'' else ''Sell''))]"

definition place_equity_market :: "config \<Rightarrow> broker \<Rightarrow> string \<Rightarrow> int \<Rightarrow> pyval io" where
  "place_equity_market cfg brk symbol qty =
     (case risk_ok cfg brk symbol qty of
        (tr, Inl e) \<Rightarrow> (tr, Inl e)
      | (tr, Inr ok) \<Rightarrow>
          if \<not> ok then (tr, Inl (RuntimeError ''Risk check failed - order blocked''))
          else
            (let payload = order_payload cfg symbol qty;
                 tr1 = tr @ [Log INFO ''Placing market order: %s'' [payload]]
             in if DRY_RUN cfg then
                  (let (tr2, r) = simulate_order payload in (tr1 @ tr2, Inr r))
                else
                  (tr1 @ [Call_api_post ''/v1/accounts/orders'' payload],
                   api_post brk ''/v1/accounts/orders'' payload)))"

text \<open>
  \<^verbatim>\<open>
  def place_equity_size_by_atr(symbol, risk_per_trade=None, stop_atr_mult=None):
      qty = position_size_by_atr(symbol, risk_per_trade, stop_atr_mult)
      logger.info("Computed qty=%s by ATR sizing for %s", qty, symbol)
      return place_equity_market(symbol, qty if qty > 0 else 1)
  \<close>
  \<^verbatim>\<open>risk.position_size_by_atr\<close> is not part of the sources; it is a parameter that answers
  with an integer quantity or raises. Its two sizing arguments are passed through
  untouched, so their types are left open.
\<close>

definition place_equity_size_by_atr ::
  "config \<Rightarrow> broker \<Rightarrow> (string \<Rightarrow> 'r \<Rightarrow> 'm \<Rightarrow> exn + int) \<Rightarrow> string \<Rightarrow> 'r \<Rightarrow> 'm \<Rightarrow> pyval io" where
  "place_equity_size_by_atr cfg brk position_size_by_atr symbol risk_per_trade stop_atr_mult =
     (case position_size_by_atr symbol risk_per_trade stop_atr_mult of
        Inl e \<Rightarrow> ([Call_position_size_by_atr symbol], Inl e)
      | Inr qty \<Rightarrow>
          (let (tr, r) = place_equity_market cfg brk symbol (if qty > 0 then qty else 1)
           in ([Call_position_size_by_atr symbol,
                Log INFO ''Computed qty=%s by ATR sizing for %s'' [PInt qty, PStr symbol]] @ tr, r)))"

section \<open>Example inputs\<close>

text \<open>
  Concrete inputs for the evaluations below: a live, online configuration with a
  position limit of 100; a broker whose risk check passes and whose order service
  answers with an order id; a clock that stands at 06:45 on 2026-11-03 (inside the first
  trading window); and the module state at start-up.
\<close>

definition example_config :: config where
  "example_config =
     \<lparr>ACCOUNT_ID = PStr ''ACC1'', MAX_POS_SIZE = 100, KILL_SWITCH = False,
      AUTO_LIQUIDATE = False, DRY_RUN = False, OFFLINE_MODE = False\<rparr>"

definition example_broker :: broker where
  "example_broker =
     \<lparr>check_risk_limits = Inr (True, PList []), enforce_limits = (\<lambda>_. None),
      api_post = (\<lambda>path body. Inr (PDict [(''orderId'', PInt 1)]))\<rparr>"

definition example_clock :: "nat \<Rightarrow> datetime" where
  "example_clock = (\<lambda>n. \<lparr>date_of = (2026, 11, 3), time_of = (6, 45, 0, 0)\<rparr>)"

definition initial_state :: gate_state where
  "initial_state = \<lparr>clock_reads = 0, window_trades = (\<lambda>_. None)\<rparr>"

text \<open>
  Two more inputs, for the moment a trading window closes: a clock whose first reading
  is 07:30:00.000000 (the last instant of the first window) and whose later readings are
  one microsecond after it, and a module state in which the first window of that day
  already holds two trades.
\<close>

definition closing_clock :: "nat \<Rightarrow> datetime" where
  "closing_clock = (\<lambda>n. \<lparr>date_of = (2026, 11, 3), time_of = (7, 30, 0, if n = 0 then 0 else 1)\<rparr>)"

definition full_state :: gate_state where
  "full_state = \<lparr>clock_reads = 0, window_trades = [(''2026-11-03'', 0) \<mapsto> 2]\<rparr>"

section \<open>Basic facts\<close>

lemma in_window_iff_key: "in_window_at (time_of dt) \<longleftrightarrow> window_key_at dt \<noteq> None"
  by (simp add: in_window_at_def window_key_at_def TRADE_WINDOWS_def)

subsection \<open>The branches of risk_ok and place_equity_market\<close>

lemma risk_ok_kill:
  "KILL_SWITCH cfg \<Longrightarrow>
   risk_ok cfg brk symbol qty = ([Log ERROR ''Kill switch active - blocking orders'' []], Inr False)"
  by (simp add: risk_ok_def)

lemma risk_ok_oversize:
  "\<not> KILL_SWITCH cfg \<Longrightarrow> \<bar>qty\<bar> > MAX_POS_SIZE cfg \<Longrightarrow>
   risk_ok cfg brk symbol qty =
     ([Log ERROR ''Qty %s exceeds MAX_POS_SIZE %s'' [PInt qty, PInt (MAX_POS_SIZE cfg)]], Inr False)"
  by (simp add: risk_ok_def)

lemma risk_ok_offline:
  "\<not> KILL_SWITCH cfg \<Longrightarrow> \<bar>qty\<bar> \<le> MAX_POS_SIZE cfg \<Longrightarrow> OFFLINE_MODE cfg \<Longrightarrow>
   risk_ok cfg brk symbol qty =
     ([Log INFO ''OFFLINE_MODE=true -> skipping broker risk checks'' []], Inr True)"
  by (simp add: risk_ok_def)

lemma place_equity_market_denied:
  "risk_ok cfg brk symbol qty = (tr, Inr False) \<Longrightarrow>
   place_equity_market cfg brk symbol qty =
     (tr, Inl (RuntimeError ''Risk check failed - order blocked''))"
  by (simp add: place_equity_market_def)

lemma place_equity_market_admitted:
  "risk_ok cfg brk symbol qty = (tr, Inr True) \<Longrightarrow>
   place_equity_market cfg brk symbol qty =
     (if DRY_RUN cfg then
        (tr @ [Log INFO ''Placing market order: %s'' [order_payload cfg symbol qty],
               Log INFO ''[DRY_RUN] Simulated order: %s'' [order_payload cfg symbol qty]],
         Inr (PDict [(''status'', PStr ''simulated''), (''payload'', order_payload cfg symbol qty)]))
      else
        (tr @ [Log INFO ''Placing market order: %s'' [order_payload cfg symbol qty],
               Call_api_post ''/v1/accounts/orders'' (order_payload cfg symbol qty)],
         api_post brk ''/v1/accounts/orders'' (order_payload cfg symbol qty)))"
  by (simp add: place_equity_market_def simulate_order_def Let_def)

subsection \<open>The branches of allow_order and record_order\<close>

lemma allow_order_outside:
  "\<not> in_window_at (time_of (clock (clock_reads s))) \<Longrightarrow>
   allow_order clock s symbol side =
     ((False, ''outside_playbook_window''), s\<lparr>clock_reads := Suc (clock_reads s)\<rparr>)"
  by (simp add: allow_order_def in_window_def datetime_now_def)

lemma allow_order_protected:
  "in_window_at (time_of (clock (clock_reads s))) \<Longrightarrow> side = ''Sell'' \<Longrightarrow>
   upper symbol \<in> PROTECTED_NEVER_SELL \<Longrightarrow>
   allow_order clock s symbol side =
     ((False, ''protected_ticker_never_sell''), s\<lparr>clock_reads := Suc (clock_reads s)\<rparr>)"
  by (simp add: allow_order_def in_window_def datetime_now_def)

lemma allow_order_throttle:
  "in_window_at (time_of (clock (clock_reads s))) \<Longrightarrow>
   \<not> (side = ''Sell'' \<and> upper symbol \<in> PROTECTED_NEVER_SELL) \<Longrightarrow>
   allow_order clock s symbol side =
     ((case window_key_at (clock (Suc (clock_reads s))) of
         Some k \<Rightarrow>
           if dict_get (window_trades s) k 0 \<ge> MAX_TRADES_PER_WINDOW
           then (False, ''max_trades_this_window'') else (True, '''')
       | None \<Rightarrow> (True, '''')),
      s\<lparr>clock_reads := Suc (Suc (clock_reads s))\<rparr>)"
  by (auto simp add: allow_order_def in_window_def window_key_def datetime_now_def Let_def
      split: option.splits)

lemma record_order_eq:
  "record_order clock s =
     (case window_key_at (clock (clock_reads s)) of
        Some k \<Rightarrow> s\<lparr>clock_reads := Suc (clock_reads s),
                    window_trades := (window_trades s)(k \<mapsto> dict_get (window_trades s) k 0 + 1)\<rparr>
      | None \<Rightarrow> s\<lparr>clock_reads := Suc (clock_reads s)\<rparr>)"
  by (simp add: record_order_def window_key_def datetime_now_def split: option.splits)

lemma gate_intent_admit:
  assumes key: "\<And>n. n < 3 \<Longrightarrow> window_key_at (clock (clock_reads s + n)) = Some wk"
      and unprotected: "\<not> (snd i = ''Sell'' \<and> upper (fst i) \<in> PROTECTED_NEVER_SELL)"
      and room: "dict_get (window_trades s) wk 0 < MAX_TRADES_PER_WINDOW"
  shows "gate_intent clock s i =
           ((True, ''''),
            \<lparr>clock_reads = clock_reads s + 3,
             window_trades = (window_trades s)(wk \<mapsto> dict_get (window_trades s) wk 0 + 1)\<rparr>)"
proof -
  have k0: "window_key_at (clock (clock_reads s)) = Some wk" using key [of 0] by simp
  have k1: "window_key_at (clock (Suc (clock_reads s))) = Some wk" using key [of 1] by simp
  have k2: "window_key_at (clock (Suc (Suc (clock_reads s)))) = Some wk" using key [of 2] by simp
  have inw: "in_window_at (time_of (clock (clock_reads s)))"
    using k0 by (simp add: in_window_iff_key)
  have "allow_order clock s (fst i) (snd i) =
          ((True, ''''), s\<lparr>clock_reads := Suc (Suc (clock_reads s))\<rparr>)"
    using allow_order_throttle [where clock = clock and s = s and side = "snd i" and symbol = "fst i"]
      inw k1 unprotected room by simp
  then show ?thesis
    using k2 by (simp add: gate_intent_def record_order_eq)
qed

lemma gate_intent_cap:
  assumes key: "\<And>n. n < 2 \<Longrightarrow> window_key_at (clock (clock_reads s + n)) = Some wk"
      and unprotected: "\<not> (snd i = ''Sell'' \<and> upper (fst i) \<in> PROTECTED_NEVER_SELL)"
      and full: "dict_get (window_trades s) wk 0 \<ge> MAX_TRADES_PER_WINDOW"
  shows "gate_intent clock s i =
           ((False, ''max_trades_this_window''), s\<lparr>clock_reads := clock_reads s + 2\<rparr>)"
proof -
  have k0: "window_key_at (clock (clock_reads s)) = Some wk" using key [of 0] by simp
  have k1: "window_key_at (clock (Suc (clock_reads s))) = Some wk" using key [of 1] by simp
  have inw: "in_window_at (time_of (clock (clock_reads s)))"
    using k0 by (simp add: in_window_iff_key)
  have "allow_order clock s (fst i) (snd i) =
          ((False, ''max_trades_this_window''), s\<lparr>clock_reads := Suc (Suc (clock_reads s))\<rparr>)"
    using allow_order_throttle [where clock = clock and s = s and side = "snd i" and symbol = "fst i"]
      inw k1 unprotected full by simp
  then show ?thesis
    by (simp add: gate_intent_def)
qed

lemma allow_order_admitted_below_cap:
  assumes "fst (fst (allow_order clock s symbol side))"
      and "window_key_at (clock (Suc (clock_reads s))) = Some k"
  shows "dict_get (window_trades s) k 0 < MAX_TRADES_PER_WINDOW"
proof (cases "in_window_at (time_of (clock (clock_reads s)))")
  case False
  then show ?thesis using assms by (simp add: allow_order_outside)
next
  case inw: True
  show ?thesis
  proof (cases "side = ''Sell'' \<and> upper symbol \<in> PROTECTED_NEVER_SELL")
    case True
    then show ?thesis using assms inw by (simp add: allow_order_protected)
  next
    case False
    then show ?thesis
      using assms inw
        allow_order_throttle [where clock = clock and s = s and side = side and symbol = symbol]
      by (simp split: if_splits)
  qed
qed

lemma three_intents_same_bucket:
  assumes key: "\<And>n. n < 8 \<Longrightarrow> window_key_at (clock (clock_reads s + n)) = Some wk"
      and fresh: "dict_get (window_trades s) wk 0 = 0"
      and p1: "\<not> (snd i1 = ''Sell'' \<and> upper (fst i1) \<in> PROTECTED_NEVER_SELL)"
      and p2: "\<not> (snd i2 = ''Sell'' \<and> upper (fst i2) \<in> PROTECTED_NEVER_SELL)"
      and p3: "\<not> (snd i3 = ''Sell'' \<and> upper (fst i3) \<in> PROTECTED_NEVER_SELL)"
  shows "gate_intents clock s [i1, i2, i3] =
           ([(True, ''''), (True, ''''), (False, ''max_trades_this_window'')],
            \<lparr>clock_reads = clock_reads s + 8, window_trades = (window_trades s)(wk \<mapsto> 2)\<rparr>)"
proof -
  define s1 where "s1 = \<lparr>clock_reads = clock_reads s + 3,
             window_trades = (window_trades s)(wk \<mapsto> 1)\<rparr>"
  define s2 where "s2 = \<lparr>clock_reads = clock_reads s + 6,
             window_trades = (window_trades s)(wk \<mapsto> 2)\<rparr>"
  have room0: "dict_get (window_trades s) wk 0 < MAX_TRADES_PER_WINDOW"
    using fresh by (simp add: MAX_TRADES_PER_WINDOW_def)
  have key0: "window_key_at (clock (clock_reads s + n)) = Some wk" if "n < 3" for n
    using key [of n] that by simp
  have g1: "gate_intent clock s i1 = ((True, ''''), s1)"
    using gate_intent_admit [where s = s and clock = clock and wk = wk and i = i1, OF key0 p1 room0] fresh
    by (simp add: s1_def)
  have e1: "clock_reads s1 + n = clock_reads s + (3 + n)" for n
    by (simp add: s1_def)
  have key1: "window_key_at (clock (clock_reads s1 + n)) = Some wk" if "n < 3" for n
    unfolding e1 using that by (intro key) simp
  have c1: "dict_get (window_trades s1) wk 0 = 1" by (simp add: s1_def dict_get_def)
  have room1: "dict_get (window_trades s1) wk 0 < MAX_TRADES_PER_WINDOW"
    using c1 by (simp add: MAX_TRADES_PER_WINDOW_def)
  have g2: "gate_intent clock s1 i2 = ((True, ''''), s2)"
    using gate_intent_admit [where s = s1 and clock = clock and wk = wk and i = i2, OF key1 p2 room1] c1
    by (simp add: s1_def s2_def)
  have e2: "clock_reads s2 + n = clock_reads s + (6 + n)" for n
    by (simp add: s2_def)
  have key2: "window_key_at (clock (clock_reads s2 + n)) = Some wk" if "n < 2" for n
    unfolding e2 using that by (intro key) simp
  have c2: "dict_get (window_trades s2) wk 0 = 2" by (simp add: s2_def dict_get_def)
  have full2: "dict_get (window_trades s2) wk 0 \<ge> MAX_TRADES_PER_WINDOW"
    using c2 by (simp add: MAX_TRADES_PER_WINDOW_def)
  have g3: "gate_intent clock s2 i3 =
      ((False, ''max_trades_this_window''), s2\<lparr>clock_reads := clock_reads s2 + 2\<rparr>)"
    using gate_intent_cap [where s = s2 and clock = clock and wk = wk and i = i3, OF key2 p3 full2] .
  have "s2\<lparr>clock_reads := clock_reads s2 + 2\<rparr> =
          \<lparr>clock_reads = clock_reads s + 8, window_trades = (window_trades s)(wk \<mapsto> 2)\<rparr>"
    by (simp add: s2_def)
  then show ?thesis
    by (simp add: g1 g2 g3)
qed

lemma example_key: "window_key_at (example_clock n) = Some (''2026-11-03'', 0)"
  by code_simp

lemma upper_AAPL: "upper ''AAPL'' = ''AAPL''"
  by code_simp

lemma upper_MSFT: "upper ''MSFT'' = ''MSFT''"
  by code_simp

lemma allow_order_reasons:
  "snd (fst (allow_order clock s symbol side)) =
     (if fst (fst (allow_order clock s symbol side)) then ''''
      else if \<not> in_window_at (time_of (clock (clock_reads s))) then ''outside_playbook_window''
      else if side = ''Sell'' \<and> upper symbol \<in> PROTECTED_NEVER_SELL
        then ''protected_ticker_never_sell''
      else ''max_trades_this_window'')"
proof (cases "in_window_at (time_of (clock (clock_reads s)))")
  case False
  then show ?thesis by (simp add: allow_order_outside)
next
  case inw: True
  show ?thesis
  proof (cases "side = ''Sell'' \<and> upper symbol \<in> PROTECTED_NEVER_SELL")
    case True
    then show ?thesis using inw by (simp add: allow_order_protected)
  next
    case False
    then show ?thesis
      using inw allow_order_throttle [where clock = clock and s = s and side = side and symbol = symbol]
      by (simp split: option.splits)
  qed
qed

lemma example_in_window: "in_window_at (time_of (example_clock n))"
  by (simp add: in_window_iff_key example_key)

lemma upper_cwh: "upper ''cwh'' = ''CWH''"
  by code_simp

lemma upper_CWH: "upper ''CWH'' = ''CWH''"
  by code_simp

lemma example_risk_ok:
  "risk_ok example_config example_broker symbol 10 = ([Call_check_risk_limits], Inr True)"
  by (simp add: risk_ok_def example_config_def example_broker_def)

lemma example_risk_ok_one:
  "risk_ok example_config example_broker symbol 1 = ([Call_check_risk_limits], Inr True)"
  by (simp add: risk_ok_def example_config_def example_broker_def)

lemma closing_key_first: "window_key_at (closing_clock 0) = Some (''2026-11-03'', 0)"
  by code_simp

lemma closing_key_second: "window_key_at (closing_clock (Suc 0)) = None"
  by code_simp


lemma risk_ok_breach_exact:
  "\<not> KILL_SWITCH cfg \<Longrightarrow> \<bar>qty\<bar> \<le> MAX_POS_SIZE cfg \<Longrightarrow> \<not> OFFLINE_MODE cfg \<Longrightarrow>
   check_risk_limits brk = Inr (False, reasons) \<Longrightarrow>
   risk_ok cfg brk symbol qty =
     (if AUTO_LIQUIDATE cfg
      then ([Call_check_risk_limits, Log ERROR ''Risk limits breached: %s'' [reasons],
             Call_enforce_limits True],
            case enforce_limits brk True of None \<Rightarrow> Inr False | Some e \<Rightarrow> Inl e)
      else ([Call_check_risk_limits, Log ERROR ''Risk limits breached: %s'' [reasons]],
            Inr False))"
  by (simp add: risk_ok_def Let_def split: option.splits)

lemma place_equity_market_raised:
  "risk_ok cfg brk symbol qty = (tr, Inl e) \<Longrightarrow>
   place_equity_market cfg brk symbol qty = (tr, Inl e)"
  by (simp add: place_equity_market_def)

section \<open>The kill switch\<close>

text \<open>
  Claim C2, as the code has it. While \<open>KILL_SWITCH\<close> is set, \<open>risk_ok\<close> returns
  \<open>False\<close> for every symbol and quantity, whatever the other configuration values and
  the broker are, and its only effect is the error log line
  "Kill switch active - blocking orders". It returns a bare boolean: there is no reason
  string. \<open>place_equity_market\<close> then raises
  \<open>RuntimeError\<close> "Risk check failed - order blocked" and posts nothing.
\<close>

theorem kill_switch_blocks_every_order:
  assumes "KILL_SWITCH cfg"
  shows "risk_ok cfg brk symbol qty =
           ([Log ERROR ''Kill switch active - blocking orders'' []], Inr False)
         \<and> place_equity_market cfg brk symbol qty =
           ([Log ERROR ''Kill switch active - blocking orders'' []],
            Inl (RuntimeError ''Risk check failed - order blocked''))"
  using assms by (simp add: risk_ok_kill place_equity_market_denied)

theorem kill_switch_witness:
  "risk_ok \<lparr>ACCOUNT_ID = PStr ''ACC1'', MAX_POS_SIZE = 100, KILL_SWITCH = True,
             AUTO_LIQUIDATE = False, DRY_RUN = False, OFFLINE_MODE = False\<rparr>
           \<lparr>check_risk_limits = Inr (True, PList []), enforce_limits = (\<lambda>_. None),
             api_post = (\<lambda>p b. Inr PNone)\<rparr> ''MSFT'' (-7)
   = ([Log ERROR ''Kill switch active - blocking orders'' []], Inr False)"
  using kill_switch_blocks_every_order
    [of "\<lparr>ACCOUNT_ID = PStr ''ACC1'', MAX_POS_SIZE = 100, KILL_SWITCH = True,
           AUTO_LIQUIDATE = False, DRY_RUN = False, OFFLINE_MODE = False\<rparr>"
        "\<lparr>check_risk_limits = Inr (True, PList []), enforce_limits = (\<lambda>_. None),
           api_post = (\<lambda>p b. Inr PNone)\<rparr>" "''MSFT''" "-7"]
  by simp

text \<open>
  Claim C2 as stated fails: with the kill switch on, an order for 10 AAPL is denied, but
  what comes back is \<open>False\<close> alone, and the one message the call emits is not
  "kill_switch_active".
\<close>

theorem kill_switch_reason_counterexample:
  "risk_ok \<lparr>ACCOUNT_ID = PStr ''ACC1'', MAX_POS_SIZE = 100, KILL_SWITCH = True,
             AUTO_LIQUIDATE = False, DRY_RUN = True, OFFLINE_MODE = True\<rparr>
           \<lparr>check_risk_limits = Inr (True, PList []), enforce_limits = (\<lambda>_. None),
             api_post = (\<lambda>p b. Inr PNone)\<rparr> ''AAPL'' 10
   = ([Log ERROR ''Kill switch active - blocking orders'' []], Inr False)
   \<and> ''kill_switch_active'' \<notin> set (log_messages
        (fst (risk_ok \<lparr>ACCOUNT_ID = PStr ''ACC1'', MAX_POS_SIZE = 100, KILL_SWITCH = True,
             AUTO_LIQUIDATE = False, DRY_RUN = True, OFFLINE_MODE = True\<rparr>
           \<lparr>check_risk_limits = Inr (True, PList []), enforce_limits = (\<lambda>_. None),
             api_post = (\<lambda>p b. Inr PNone)\<rparr> ''AAPL'' 10)))"
  by (simp add: risk_ok_def)

section \<open>Offline mode\<close>

text \<open>
  Claim C7. With \<open>OFFLINE_MODE\<close> set, the kill switch off and the absolute quantity
  within \<open>MAX_POS_SIZE\<close>, \<open>risk_ok\<close> returns \<open>True\<close>; its trace is the single info
  log line, so \<open>check_risk_limits\<close> is not called, and the answer is the same for
  every broker.
\<close>

theorem offline_mode_admits_without_broker_call:
  assumes "OFFLINE_MODE cfg" and "\<not> KILL_SWITCH cfg" and "\<bar>qty\<bar> \<le> MAX_POS_SIZE cfg"
  shows "risk_ok cfg brk symbol qty =
           ([Log INFO ''OFFLINE_MODE=true -> skipping broker risk checks'' []], Inr True)
         \<and> Call_check_risk_limits \<notin> set (fst (risk_ok cfg brk symbol qty))
         \<and> risk_ok cfg brk' symbol qty = risk_ok cfg brk symbol qty"
  using assms by (simp add: risk_ok_offline)

theorem offline_mode_witness:
  "risk_ok \<lparr>ACCOUNT_ID = PStr ''ACC1'', MAX_POS_SIZE = 100, KILL_SWITCH = False,
             AUTO_LIQUIDATE = True, DRY_RUN = False, OFFLINE_MODE = True\<rparr>
           \<lparr>check_risk_limits = Inl (Raised ''broker unreachable''), enforce_limits = (\<lambda>_. None),
             api_post = (\<lambda>p b. Inr PNone)\<rparr> ''AAPL'' (-100)
   = ([Log INFO ''OFFLINE_MODE=true -> skipping broker risk checks'' []], Inr True)"
  using offline_mode_admits_without_broker_call
    [of "\<lparr>ACCOUNT_ID = PStr ''ACC1'', MAX_POS_SIZE = 100, KILL_SWITCH = False,
           AUTO_LIQUIDATE = True, DRY_RUN = False, OFFLINE_MODE = True\<rparr>" "-100"
        "\<lparr>check_risk_limits = Inl (Raised ''broker unreachable''), enforce_limits = (\<lambda>_. None),
           api_post = (\<lambda>p b. Inr PNone)\<rparr>" "''AAPL''"]
  by simp

section \<open>The per-window trade cap\<close>

text \<open>
  Claim C1, as the code has it. \<open>MAX_TRADES_PER_WINDOW\<close> is 2. Take three intents, none of
  them a sell of a protected ticker, evaluated one after the other (\<open>allow_order\<close>,
  then \<open>record_order\<close> on admission) while every clock reading of the run (eight of
  them) falls into the same (date, window) bucket \<open>wk\<close> whose counter is 0. Then the
  first two are admitted with the empty reason, the third is denied, and the counter
  ends at 2. The reason of the denial is "max_trades_this_window". In general, when
  \<open>allow_order\<close> admits and its \<open>window_key()\<close> call found a bucket, the counter of that
  bucket was strictly below the cap. \<open>allow_order\<close> reads the clock twice, once in
  \<open>in_window()\<close> and once in \<open>window_key()\<close>; the general statement is about the
  bucket of the second reading and says nothing for the case that this reading finds
  none.
\<close>

theorem window_cap_two_admissions_then_denial:
  "((\<forall>n<8. window_key_at (clock (clock_reads s + n)) = Some wk)
     \<and> dict_get (window_trades s) wk 0 = 0
     \<and> (\<forall>i \<in> set [i1, i2, i3]. \<not> (snd i = ''Sell'' \<and> upper (fst i) \<in> PROTECTED_NEVER_SELL))
    \<longrightarrow> fst (gate_intents clock s [i1, i2, i3]) =
          [(True, ''''), (True, ''''), (False, ''max_trades_this_window'')]
        \<and> dict_get (window_trades (snd (gate_intents clock s [i1, i2, i3]))) wk 0 = 2)
   \<and> (fst (fst (allow_order clock s symbol side))
        \<and> window_key_at (clock (Suc (clock_reads s))) = Some k
      \<longrightarrow> dict_get (window_trades s) k 0 < MAX_TRADES_PER_WINDOW)"
proof (intro conjI impI)
  assume "fst (fst (allow_order clock s symbol side))
        \<and> window_key_at (clock (Suc (clock_reads s))) = Some k"
  then show "dict_get (window_trades s) k 0 < MAX_TRADES_PER_WINDOW"
    using allow_order_admitted_below_cap [of clock s symbol side k] by simp
next
  assume h: "(\<forall>n<8. window_key_at (clock (clock_reads s + n)) = Some wk)
     \<and> dict_get (window_trades s) wk 0 = 0
     \<and> (\<forall>i \<in> set [i1, i2, i3]. \<not> (snd i = ''Sell'' \<and> upper (fst i) \<in> PROTECTED_NEVER_SELL))"
  have run: "gate_intents clock s [i1, i2, i3] =
           ([(True, ''''), (True, ''''), (False, ''max_trades_this_window'')],
            \<lparr>clock_reads = clock_reads s + 8, window_trades = (window_trades s)(wk \<mapsto> 2)\<rparr>)"
    using h by (intro three_intents_same_bucket) simp_all
  show "fst (gate_intents clock s [i1, i2, i3]) =
          [(True, ''''), (True, ''''), (False, ''max_trades_this_window'')]"
    by (simp only: run fst_conv)
  show "dict_get (window_trades (snd (gate_intents clock s [i1, i2, i3]))) wk 0 = 2"
    unfolding run by (simp add: dict_get_def)
qed

theorem window_cap_witness:
  "fst (gate_intents example_clock initial_state
          [(''AAPL'', ''Buy''), (''MSFT'', ''Sell''), (''CWH'', ''Buy'')])
     = [(True, ''''), (True, ''''), (False, ''max_trades_this_window'')]"
  using window_cap_two_admissions_then_denial
    [of example_clock initial_state "(''2026-11-03'', 0)" "(''AAPL'', ''Buy'')"
      "(''MSFT'', ''Sell'')" "(''CWH'', ''Buy'')"]
  by (simp add: example_key initial_state_def dict_get_def upper_AAPL upper_MSFT
      PROTECTED_NEVER_SELL_def)

text \<open>
  Claim C1 as stated fails in two ways. The reason string: three buys of AAPL at 06:45
  on a fresh counter give two admissions and a denial whose reason is
  "max_trades_this_window", not "window_trade_cap_reached". The general clause: with the
  first window of the day already at two trades, a buy whose \<open>in_window()\<close> reading is
  07:30:00.000000 and whose \<open>window_key()\<close> reading is one microsecond later is
  admitted, although the counter of the bucket it was evaluated in is not below the cap:
  the second reading finds no bucket, and no counter is consulted.
\<close>

theorem window_cap_counterexample:
  "fst (gate_intents example_clock initial_state
          [(''AAPL'', ''Buy''), (''AAPL'', ''Buy''), (''AAPL'', ''Buy'')])
     = [(True, ''''), (True, ''''), (False, ''max_trades_this_window'')]
   \<and> fst (gate_intents example_clock initial_state
          [(''AAPL'', ''Buy''), (''AAPL'', ''Buy''), (''AAPL'', ''Buy'')])
     \<noteq> [(True, ''''), (True, ''''), (False, ''window_trade_cap_reached'')]
   \<and> window_key_at (closing_clock (clock_reads full_state)) = Some (''2026-11-03'', 0)
   \<and> dict_get (window_trades full_state) (''2026-11-03'', 0) 0 = 2
   \<and> \<not> dict_get (window_trades full_state) (''2026-11-03'', 0) 0 < MAX_TRADES_PER_WINDOW
   \<and> fst (allow_order closing_clock full_state ''AAPL'' ''Buy'') = (True, '''')"
proof -
  have "gate_intents example_clock initial_state
          [(''AAPL'', ''Buy''), (''AAPL'', ''Buy''), (''AAPL'', ''Buy'')] =
        ([(True, ''''), (True, ''''), (False, ''max_trades_this_window'')],
         \<lparr>clock_reads = clock_reads initial_state + 8,
          window_trades = (window_trades initial_state)((''2026-11-03'', 0) \<mapsto> 2)\<rparr>)"
    by (rule three_intents_same_bucket) (simp_all add: example_key initial_state_def dict_get_def)
  then have three: "fst (gate_intents example_clock initial_state
          [(''AAPL'', ''Buy''), (''AAPL'', ''Buy''), (''AAPL'', ''Buy'')])
     = [(True, ''''), (True, ''''), (False, ''max_trades_this_window'')]"
    by (simp only: fst_conv)
  have reads: "clock_reads full_state = 0"
    by (simp add: full_state_def)
  have first: "window_key_at (closing_clock (clock_reads full_state)) = Some (''2026-11-03'', 0)"
    by (simp add: reads closing_key_first)
  have inw: "in_window_at (time_of (closing_clock (clock_reads full_state)))"
    using first by (simp add: in_window_iff_key)
  have counter: "dict_get (window_trades full_state) (''2026-11-03'', 0) 0 = 2"
    by (simp add: full_state_def dict_get_def)
  have admitted: "fst (allow_order closing_clock full_state ''AAPL'' ''Buy'') = (True, '''')"
    using allow_order_throttle
      [where clock = closing_clock and s = full_state and side = "''Buy''" and symbol = "''AAPL''"]
      inw
    by (simp add: reads closing_key_second)
  show ?thesis
    using three first counter admitted by (simp add: MAX_TRADES_PER_WINDOW_def)
qed

section \<open>Protected tickers\<close>

text \<open>
  Claim C4, as the code has it. A sell of a symbol whose upper-cased form is in
  \<open>PROTECTED_NEVER_SELL\<close> is always denied by \<open>allow_order\<close>: with reason
  "protected_ticker_never_sell" when the clock reading is inside a trading window, and
  with "outside_playbook_window" otherwise (the window test comes first). The reason
  "protected_ticker_never_sell" is returned exactly when the reading is inside a window,
  the side is "Sell" and the upper-cased symbol is protected. A buy is never blocked by
  this test: the answer to a buy does not depend on the symbol at all.
\<close>

theorem protected_ticker_sell_denied_buy_unaffected:
  "(upper symbol \<in> PROTECTED_NEVER_SELL \<longrightarrow>
      fst (allow_order clock s symbol ''Sell'') =
        (False, if in_window_at (time_of (clock (clock_reads s)))
                then ''protected_ticker_never_sell'' else ''outside_playbook_window''))
   \<and> (fst (allow_order clock s symbol side) = (False, ''protected_ticker_never_sell'') \<longleftrightarrow>
        in_window_at (time_of (clock (clock_reads s))) \<and> side = ''Sell''
        \<and> upper symbol \<in> PROTECTED_NEVER_SELL)
   \<and> allow_order clock s symbol ''Buy'' = allow_order clock s symbol' ''Buy''"
proof (intro conjI impI)
  assume "upper symbol \<in> PROTECTED_NEVER_SELL"
  then show "fst (allow_order clock s symbol ''Sell'') =
        (False, if in_window_at (time_of (clock (clock_reads s)))
                then ''protected_ticker_never_sell'' else ''outside_playbook_window'')"
    by (simp add: allow_order_outside allow_order_protected)
next
  show "fst (allow_order clock s symbol side) = (False, ''protected_ticker_never_sell'') \<longleftrightarrow>
        in_window_at (time_of (clock (clock_reads s))) \<and> side = ''Sell''
        \<and> upper symbol \<in> PROTECTED_NEVER_SELL"
  proof (cases "in_window_at (time_of (clock (clock_reads s)))")
    case False
    then show ?thesis by (simp add: allow_order_outside)
  next
    case inw: True
    show ?thesis
    proof (cases "side = ''Sell'' \<and> upper symbol \<in> PROTECTED_NEVER_SELL")
      case True
      then show ?thesis using inw by (simp add: allow_order_protected)
    next
      case False
      then show ?thesis
        using inw allow_order_throttle [where clock = clock and s = s and side = side and symbol = symbol]
        by (simp split: option.splits)
    qed
  qed
next
  show "allow_order clock s symbol ''Buy'' = allow_order clock s symbol' ''Buy''"
    by (simp add: allow_order_def cong: if_cong)
qed

theorem protected_ticker_witness:
  "fst (allow_order example_clock initial_state ''cwh'' ''Sell'') =
     (False, ''protected_ticker_never_sell'')"
  using protected_ticker_sell_denied_buy_unaffected
    [of "''cwh''" example_clock initial_state "''Sell''" "''cwh''"]
  by (simp add: upper_cwh PROTECTED_NEVER_SELL_def example_in_window)

text \<open>
  Claim C4 as stated fails on the reason string: a sell of CWH at 06:45 is denied with
  "protected_ticker_never_sell", not with "protected_symbol_no_sell".
\<close>

theorem protected_ticker_reason_counterexample:
  "fst (allow_order example_clock initial_state ''CWH'' ''Sell'') =
     (False, ''protected_ticker_never_sell'')
   \<and> fst (allow_order example_clock initial_state ''CWH'' ''Sell'') \<noteq>
     (False, ''protected_symbol_no_sell'')"
  by (simp add: allow_order_protected example_in_window upper_CWH PROTECTED_NEVER_SELL_def)

section \<open>The position limit\<close>

text \<open>
  Claim C3, as the code has it. For every quantity whose absolute value exceeds
  \<open>MAX_POS_SIZE\<close>, \<open>risk_ok\<close> returns \<open>False\<close> and calls no collaborator; the log line
  is the kill-switch message when the kill switch is on and
  "Qty %s exceeds MAX_POS_SIZE %s" otherwise, and \<open>place_equity_market\<close> raises
  \<open>RuntimeError\<close>. No reason string is returned. The comparison is strict: a quantity
  within the limit never produces the oversize log line, and one whose absolute value
  equals the limit is admitted in offline mode with the kill switch off.
\<close>

theorem oversize_quantity_denied:
  "(\<bar>qty\<bar> > MAX_POS_SIZE cfg \<longrightarrow>
      risk_ok cfg brk symbol qty =
        (if KILL_SWITCH cfg then [Log ERROR ''Kill switch active - blocking orders'' []]
         else [Log ERROR ''Qty %s exceeds MAX_POS_SIZE %s'' [PInt qty, PInt (MAX_POS_SIZE cfg)]],
         Inr False)
      \<and> snd (place_equity_market cfg brk symbol qty) =
          Inl (RuntimeError ''Risk check failed - order blocked''))
   \<and> (\<bar>qty\<bar> \<le> MAX_POS_SIZE cfg \<longrightarrow>
        ''Qty %s exceeds MAX_POS_SIZE %s'' \<notin> set (log_messages (fst (risk_ok cfg brk symbol qty))))
   \<and> (\<bar>qty\<bar> = MAX_POS_SIZE cfg \<and> \<not> KILL_SWITCH cfg \<and> OFFLINE_MODE cfg \<longrightarrow>
        snd (risk_ok cfg brk symbol qty) = Inr True)"
proof (intro conjI impI)
  assume big: "\<bar>qty\<bar> > MAX_POS_SIZE cfg"
  show r: "risk_ok cfg brk symbol qty =
        (if KILL_SWITCH cfg then [Log ERROR ''Kill switch active - blocking orders'' []]
         else [Log ERROR ''Qty %s exceeds MAX_POS_SIZE %s'' [PInt qty, PInt (MAX_POS_SIZE cfg)]],
         Inr False)"
    using big by (simp add: risk_ok_kill risk_ok_oversize)
  show "snd (place_equity_market cfg brk symbol qty) =
          Inl (RuntimeError ''Risk check failed - order blocked'')"
    using place_equity_market_denied [OF r] by simp
next
  assume "\<bar>qty\<bar> \<le> MAX_POS_SIZE cfg"
  then show "''Qty %s exceeds MAX_POS_SIZE %s'' \<notin> set (log_messages (fst (risk_ok cfg brk symbol qty)))"
    by (simp add: risk_ok_def Let_def split: sum.splits prod.splits option.splits)
next
  assume "\<bar>qty\<bar> = MAX_POS_SIZE cfg \<and> \<not> KILL_SWITCH cfg \<and> OFFLINE_MODE cfg"
  then show "snd (risk_ok cfg brk symbol qty) = Inr True"
    by (simp add: risk_ok_offline)
qed

theorem oversize_quantity_witness:
  "snd (risk_ok example_config example_broker ''AAPL'' (-101)) = Inr False
   \<and> snd (risk_ok (example_config\<lparr>OFFLINE_MODE := True\<rparr>) example_broker ''AAPL'' (-100)) = Inr True"
  using oversize_quantity_denied [of example_config "-101" example_broker "''AAPL''"]
    oversize_quantity_denied [of "example_config\<lparr>OFFLINE_MODE := True\<rparr>" "-100" example_broker "''AAPL''"]
  by (simp add: example_config_def)

text \<open>
  Claim C3 as stated fails on the reason: an order for 101 shares against a limit of 100
  is denied, and what comes back is \<open>False\<close> and one log line, whose message is not
  "max_position_exceeded".
\<close>

theorem oversize_reason_counterexample:
  "risk_ok example_config example_broker ''AAPL'' 101 =
     ([Log ERROR ''Qty %s exceeds MAX_POS_SIZE %s'' [PInt 101, PInt 100]], Inr False)
   \<and> ''max_position_exceeded'' \<notin>
       set (log_messages (fst (risk_ok example_config example_broker ''AAPL'' 101)))"
  by (simp add: risk_ok_def example_config_def)

section \<open>How a denial reaches the caller\<close>

text \<open>
  Claim C5, as the code has it. \<open>allow_order\<close> returns each of its denials as a value,
  \<open>False\<close> with one of its three reason strings. \<open>risk_ok\<close> returns the value
  \<open>False\<close>, without a reason code and after one error log line, when the kill switch is
  on, when the quantity is oversize, and when the broker reports a breached risk limit.
  Nothing in \<^verbatim>\<open>orders.py\<close> catches an exception, so two paths raise instead. On a
  breach with \<open>AUTO_LIQUIDATE\<close> on, \<open>risk_ok\<close> calls \<open>enforce_limits\<close> before it
  returns, and an exception raised there leaves \<open>risk_ok\<close> in place of the \<open>False\<close>.
  And \<open>place_equity_market\<close> turns every \<open>False\<close> of \<open>risk_ok\<close> into the exception
  \<open>RuntimeError\<close> "Risk check failed - order blocked", and lets an exception of
  \<open>risk_ok\<close> through; in both cases its trace is that of \<open>risk_ok\<close>, so nothing is
  posted.
\<close>

theorem denials_returned_by_checks_raised_by_executor:
  "(\<not> fst (fst (allow_order clock s symbol side)) \<longrightarrow>
      snd (fst (allow_order clock s symbol side)) \<in>
        {''outside_playbook_window'', ''protected_ticker_never_sell'', ''max_trades_this_window''})
   \<and> (KILL_SWITCH cfg \<longrightarrow>
        risk_ok cfg brk ticker qty =
          ([Log ERROR ''Kill switch active - blocking orders'' []], Inr False))
   \<and> (\<not> KILL_SWITCH cfg \<and> \<bar>qty\<bar> > MAX_POS_SIZE cfg \<longrightarrow>
        risk_ok cfg brk ticker qty =
          ([Log ERROR ''Qty %s exceeds MAX_POS_SIZE %s'' [PInt qty, PInt (MAX_POS_SIZE cfg)]],
           Inr False))
   \<and> (\<not> KILL_SWITCH cfg \<and> \<bar>qty\<bar> \<le> MAX_POS_SIZE cfg \<and> \<not> OFFLINE_MODE cfg
        \<and> check_risk_limits brk = Inr (False, reasons) \<longrightarrow>
        risk_ok cfg brk ticker qty =
          (if AUTO_LIQUIDATE cfg
           then ([Call_check_risk_limits, Log ERROR ''Risk limits breached: %s'' [reasons],
                  Call_enforce_limits True],
                 case enforce_limits brk True of None \<Rightarrow> Inr False | Some e \<Rightarrow> Inl e)
           else ([Call_check_risk_limits, Log ERROR ''Risk limits breached: %s'' [reasons]],
                 Inr False)))
   \<and> (snd (risk_ok cfg brk ticker qty) = Inr False \<longrightarrow>
        place_equity_market cfg brk ticker qty =
          (fst (risk_ok cfg brk ticker qty),
           Inl (RuntimeError ''Risk check failed - order blocked'')))
   \<and> (snd (risk_ok cfg brk ticker qty) = Inl e \<longrightarrow>
        place_equity_market cfg brk ticker qty = (fst (risk_ok cfg brk ticker qty), Inl e))"
proof (intro conjI impI)
  assume "\<not> fst (fst (allow_order clock s symbol side))"
  then show "snd (fst (allow_order clock s symbol side)) \<in>
        {''outside_playbook_window'', ''protected_ticker_never_sell'', ''max_trades_this_window''}"
    using allow_order_reasons [of clock s symbol side] by (simp split: if_splits)
next
  assume "KILL_SWITCH cfg"
  then show "risk_ok cfg brk ticker qty =
          ([Log ERROR ''Kill switch active - blocking orders'' []], Inr False)"
    by (rule risk_ok_kill)
next
  assume "\<not> KILL_SWITCH cfg \<and> \<bar>qty\<bar> > MAX_POS_SIZE cfg"
  then show "risk_ok cfg brk ticker qty =
          ([Log ERROR ''Qty %s exceeds MAX_POS_SIZE %s'' [PInt qty, PInt (MAX_POS_SIZE cfg)]],
           Inr False)"
    by (simp add: risk_ok_oversize)
next
  assume "\<not> KILL_SWITCH cfg \<and> \<bar>qty\<bar> \<le> MAX_POS_SIZE cfg \<and> \<not> OFFLINE_MODE cfg
        \<and> check_risk_limits brk = Inr (False, reasons)"
  then show "risk_ok cfg brk ticker qty =
          (if AUTO_LIQUIDATE cfg
           then ([Call_check_risk_limits, Log ERROR ''Risk limits breached: %s'' [reasons],
                  Call_enforce_limits True],
                 case enforce_limits brk True of None \<Rightarrow> Inr False | Some e \<Rightarrow> Inl e)
           else ([Call_check_risk_limits, Log ERROR ''Risk limits breached: %s'' [reasons]],
                 Inr False))"
    using risk_ok_breach_exact [of cfg qty brk reasons ticker] by simp
next
  assume "snd (risk_ok cfg brk ticker qty) = Inr False"
  then have "risk_ok cfg brk ticker qty = (fst (risk_ok cfg brk ticker qty), Inr False)"
    by (simp add: prod_eq_iff)
  then show "place_equity_market cfg brk ticker qty =
          (fst (risk_ok cfg brk ticker qty),
           Inl (RuntimeError ''Risk check failed - order blocked''))"
    by (rule place_equity_market_denied)
next
  assume "snd (risk_ok cfg brk ticker qty) = Inl e"
  then have "risk_ok cfg brk ticker qty = (fst (risk_ok cfg brk ticker qty), Inl e)"
    by (simp add: prod_eq_iff)
  then show "place_equity_market cfg brk ticker qty = (fst (risk_ok cfg brk ticker qty), Inl e)"
    by (rule place_equity_market_raised)
qed

theorem denial_delivery_witness:
  "snd (fst (allow_order example_clock initial_state ''CWH'' ''Sell'')) \<in>
        {''outside_playbook_window'', ''protected_ticker_never_sell'', ''max_trades_this_window''}
   \<and> place_equity_market (example_config\<lparr>KILL_SWITCH := True\<rparr>) example_broker ''AAPL'' 10 =
       ([Log ERROR ''Kill switch active - blocking orders'' []],
        Inl (RuntimeError ''Risk check failed - order blocked''))
   \<and> place_equity_market example_config example_broker ''AAPL'' (-500) =
       ([Log ERROR ''Qty %s exceeds MAX_POS_SIZE %s'' [PInt (-500), PInt 100]],
        Inl (RuntimeError ''Risk check failed - order blocked''))
   \<and> risk_ok (example_config\<lparr>AUTO_LIQUIDATE := True\<rparr>)
        (example_broker\<lparr>check_risk_limits := Inr (False, PList [PStr ''margin call''])\<rparr>)
        ''AAPL'' 10 =
       ([Call_check_risk_limits,
         Log ERROR ''Risk limits breached: %s'' [PList [PStr ''margin call'']],
         Call_enforce_limits True],
        Inr False)
   \<and> place_equity_market (example_config\<lparr>AUTO_LIQUIDATE := True\<rparr>)
        (example_broker\<lparr>check_risk_limits := Inr (False, PList [PStr ''margin call'']),
                         enforce_limits := (\<lambda>_. Some (Raised ''close-out rejected''))\<rparr>)
        ''AAPL'' 10 =
       ([Call_check_risk_limits,
         Log ERROR ''Risk limits breached: %s'' [PList [PStr ''margin call'']],
         Call_enforce_limits True],
        Inl (Raised ''close-out rejected''))"
proof -
  have a: "snd (fst (allow_order example_clock initial_state ''CWH'' ''Sell'')) \<in>
        {''outside_playbook_window'', ''protected_ticker_never_sell'', ''max_trades_this_window''}"
    using denials_returned_by_checks_raised_by_executor
          [where clock = example_clock and s = initial_state and symbol = "''CWH''"
               and side = "''Sell''"]
    by (simp add: allow_order_protected example_in_window upper_CWH PROTECTED_NEVER_SELL_def)
  have b: "place_equity_market (example_config\<lparr>KILL_SWITCH := True\<rparr>) example_broker ''AAPL'' 10 =
       ([Log ERROR ''Kill switch active - blocking orders'' []],
        Inl (RuntimeError ''Risk check failed - order blocked''))"
    using denials_returned_by_checks_raised_by_executor
          [where cfg = "example_config\<lparr>KILL_SWITCH := True\<rparr>" and brk = example_broker
               and ticker = "''AAPL''" and qty = 10]
    by simp
  have c: "place_equity_market example_config example_broker ''AAPL'' (-500) =
       ([Log ERROR ''Qty %s exceeds MAX_POS_SIZE %s'' [PInt (-500), PInt 100]],
        Inl (RuntimeError ''Risk check failed - order blocked''))"
    using denials_returned_by_checks_raised_by_executor
          [where cfg = example_config and brk = example_broker
               and ticker = "''AAPL''" and qty = "-500"]
    by (simp add: example_config_def)
  have d: "risk_ok (example_config\<lparr>AUTO_LIQUIDATE := True\<rparr>)
        (example_broker\<lparr>check_risk_limits := Inr (False, PList [PStr ''margin call''])\<rparr>)
        ''AAPL'' 10 =
       ([Call_check_risk_limits,
         Log ERROR ''Risk limits breached: %s'' [PList [PStr ''margin call'']],
         Call_enforce_limits True],
        Inr False)"
    using denials_returned_by_checks_raised_by_executor
          [where cfg = "example_config\<lparr>AUTO_LIQUIDATE := True\<rparr>"
               and brk = "example_broker\<lparr>check_risk_limits := Inr (False, PList [PStr ''margin call''])\<rparr>"
               and ticker = "''AAPL''" and qty = 10 and reasons = "PList [PStr ''margin call'']"]
    by (simp add: example_config_def example_broker_def)
  have e: "place_equity_market (example_config\<lparr>AUTO_LIQUIDATE := True\<rparr>)
        (example_broker\<lparr>check_risk_limits := Inr (False, PList [PStr ''margin call'']),
                         enforce_limits := (\<lambda>_. Some (Raised ''close-out rejected''))\<rparr>)
        ''AAPL'' 10 =
       ([Call_check_risk_limits,
         Log ERROR ''Risk limits breached: %s'' [PList [PStr ''margin call'']],
         Call_enforce_limits True],
        Inl (Raised ''close-out rejected''))"
    using denials_returned_by_checks_raised_by_executor
          [where cfg = "example_config\<lparr>AUTO_LIQUIDATE := True\<rparr>"
               and brk = "example_broker\<lparr>check_risk_limits := Inr (False, PList [PStr ''margin call'']),
                         enforce_limits := (\<lambda>_. Some (Raised ''close-out rejected''))\<rparr>"
               and ticker = "''AAPL''" and qty = 10 and reasons = "PList [PStr ''margin call'']"
               and e = "Raised ''close-out rejected''"]
    by (simp add: example_config_def example_broker_def)
  show ?thesis
    using a b c d e by simp
qed

text \<open>
  Claim C5 as stated fails in two ways. When the broker reports a breached risk limit,
  the caller of \<open>place_equity_market\<close> gets the exception \<open>RuntimeError\<close>, not a
  return value. And with \<open>AUTO_LIQUIDATE\<close> on and an \<open>enforce_limits\<close> that raises,
  the risk check itself raises on that denying input instead of returning \<open>False\<close>.
\<close>

theorem denial_raised_counterexample:
  "place_equity_market example_config
     (example_broker\<lparr>check_risk_limits := Inr (False, PList [PStr ''daily loss limit''])\<rparr>)
     ''AAPL'' 10 =
   ([Call_check_risk_limits,
     Log ERROR ''Risk limits breached: %s'' [PList [PStr ''daily loss limit'']]],
    Inl (RuntimeError ''Risk check failed - order blocked''))
   \<and> risk_ok (example_config\<lparr>AUTO_LIQUIDATE := True\<rparr>)
       (example_broker\<lparr>check_risk_limits := Inr (False, PList [PStr ''daily loss limit'']),
                        enforce_limits := (\<lambda>_. Some (Raised ''liquidation failed''))\<rparr>)
       ''AAPL'' 10 =
     ([Call_check_risk_limits,
       Log ERROR ''Risk limits breached: %s'' [PList [PStr ''daily loss limit'']],
       Call_enforce_limits True],
      Inl (Raised ''liquidation failed''))"
  by (simp add: place_equity_market_def risk_ok_def example_config_def example_broker_def)

section \<open>Dry run\<close>




section \<open>Live dispatch\<close>

text \<open>
  Claim C9, as the code has it. When \<open>DRY_RUN\<close> is off and the risk check has passed
  with trace \<open>tr\<close>, \<open>place_equity_market\<close> logs the payload, calls \<open>api_post\<close> once, with
  the path "/v1/accounts/orders" and the payload as body, and returns (or raises) what
  \<open>api_post\<close> does. The body has exactly the five fields accountId, orderType "Market",
  instrument (symbol, assetType "EQ"), quantity and instruction ("Buy" or "Sell"). The
  account id travels in the body only: the path has no account segment.
\<close>

theorem live_order_posts_market_payload:
  assumes "\<not> DRY_RUN cfg" and "risk_ok cfg brk symbol qty = (tr, Inr True)"
  shows "place_equity_market cfg brk symbol qty =
           (tr @ [Log INFO ''Placing market order: %s'' [order_payload cfg symbol qty],
                  Call_api_post ''/v1/accounts/orders'' (order_payload cfg symbol qty)],
            api_post brk ''/v1/accounts/orders'' (order_payload cfg symbol qty))
         \<and> order_payload cfg symbol qty =
             PDict [(''accountId'', ACCOUNT_ID cfg),
                    (''orderType'', PStr ''Market''),
                    (''instrument'', PDict [(''symbol'', PStr symbol), (''assetType'', PStr ''EQ'')]),
                    (''quantity'', PInt \<bar>qty\<bar>),
                    (''instruction'', PStr (if qty > 0 then ''Buy'' else ''Sell''))]
         \<and> dict_keys (order_payload cfg symbol qty) =
             [''accountId'', ''orderType'', ''instrument'', ''quantity'', ''instruction'']"
  using place_equity_market_admitted [OF assms(2)] assms(1)
  by (simp add: order_payload_def dict_keys_def)

theorem live_order_witness:
  "place_equity_market example_config example_broker ''AAPL'' (-10) =
     ([Call_check_risk_limits,
       Log INFO ''Placing market order: %s''
         [PDict [(''accountId'', PStr ''ACC1''), (''orderType'', PStr ''Market''),
                 (''instrument'', PDict [(''symbol'', PStr ''AAPL''), (''assetType'', PStr ''EQ'')]),
                 (''quantity'', PInt 10), (''instruction'', PStr ''Sell'')]],
       Call_api_post ''/v1/accounts/orders''
         (PDict [(''accountId'', PStr ''ACC1''), (''orderType'', PStr ''Market''),
                 (''instrument'', PDict [(''symbol'', PStr ''AAPL''), (''assetType'', PStr ''EQ'')]),
                 (''quantity'', PInt 10), (''instruction'', PStr ''Sell'')])],
      Inr (PDict [(''orderId'', PInt 1)]))"
  using live_order_posts_market_payload
    [where cfg = example_config and brk = example_broker
       and symbol = "''AAPL''" and qty = "-10" and tr = "[Call_check_risk_limits]"]
  by (simp add: risk_ok_def example_config_def example_broker_def)

text \<open>
  Claim C9 as stated fails on the path: for account ACC1 the order goes to
  "/v1/accounts/orders", and nothing is posted to "/v1/accounts/ACC1/orders".
\<close>

theorem live_order_path_counterexample:
  "fst (place_equity_market example_config example_broker ''AAPL'' 10) =
     [Call_check_risk_limits,
      Log INFO ''Placing market order: %s'' [order_payload example_config ''AAPL'' 10],
      Call_api_post ''/v1/accounts/orders'' (order_payload example_config ''AAPL'' 10)]
   \<and> Call_api_post ''/v1/accounts/ACC1/orders'' (order_payload example_config ''AAPL'' 10)
       \<notin> set (fst (place_equity_market example_config example_broker ''AAPL'' 10))
   \<and> ACCOUNT_ID example_config = PStr ''ACC1''"
proof -
  have live: "\<not> DRY_RUN example_config" by (simp add: example_config_def)
  show ?thesis
    using place_equity_market_admitted [OF example_risk_ok, of "''AAPL''"] live
    by (simp add: example_config_def)
qed

section \<open>Quantity and instruction of the payload\<close>

text \<open>
  Claim C10. When the risk check passes for the integer quantity \<open>q\<close>, the payload that
  \<open>place_equity_market\<close> logs and then simulates or posts is
  \<open>order_payload cfg symbol q\<close>. Its quantity is the absolute value of \<open>q\<close> and its
  instruction is "Buy" when \<open>q > 0\<close> and "Sell" otherwise. There is no test for zero:
  with the kill switch off, a non-negative limit and offline mode, an order for 0
  passes the risk check, and in a dry run it comes back simulated, with quantity 0
  and instruction "Sell".
\<close>

theorem payload_quantity_absolute_instruction_by_sign:
  assumes "risk_ok cfg brk symbol q = (tr, Inr True)"
  shows "fst (place_equity_market cfg brk symbol q) =
           tr @ [Log INFO ''Placing market order: %s'' [order_payload cfg symbol q],
                 if DRY_RUN cfg
                 then Log INFO ''[DRY_RUN] Simulated order: %s'' [order_payload cfg symbol q]
                 else Call_api_post ''/v1/accounts/orders'' (order_payload cfg symbol q)]
         \<and> dict_lookup (order_payload cfg symbol q) ''quantity'' = Some (PInt \<bar>q\<bar>)
         \<and> dict_lookup (order_payload cfg symbol q) ''instruction'' =
             Some (PStr (if q > 0 then ''Buy'' else ''Sell''))
         \<and> (\<not> KILL_SWITCH cfg \<and> 0 \<le> MAX_POS_SIZE cfg \<and> OFFLINE_MODE cfg \<and> DRY_RUN cfg \<longrightarrow>
              snd (place_equity_market cfg brk symbol 0) =
                Inr (PDict [(''status'', PStr ''simulated''),
                            (''payload'', order_payload cfg symbol 0)])
              \<and> dict_lookup (order_payload cfg symbol 0) ''quantity'' = Some (PInt 0)
              \<and> dict_lookup (order_payload cfg symbol 0) ''instruction'' = Some (PStr ''Sell''))"
proof (intro conjI impI)
  show "fst (place_equity_market cfg brk symbol q) =
           tr @ [Log INFO ''Placing market order: %s'' [order_payload cfg symbol q],
                 if DRY_RUN cfg
                 then Log INFO ''[DRY_RUN] Simulated order: %s'' [order_payload cfg symbol q]
                 else Call_api_post ''/v1/accounts/orders'' (order_payload cfg symbol q)]"
    using place_equity_market_admitted [OF assms] by simp
  show "dict_lookup (order_payload cfg symbol q) ''quantity'' = Some (PInt \<bar>q\<bar>)"
    by (simp add: order_payload_def dict_lookup_def)
  show "dict_lookup (order_payload cfg symbol q) ''instruction'' =
             Some (PStr (if q > 0 then ''Buy'' else ''Sell''))"
    by (simp add: order_payload_def dict_lookup_def)
next
  assume z: "\<not> KILL_SWITCH cfg \<and> 0 \<le> MAX_POS_SIZE cfg \<and> OFFLINE_MODE cfg \<and> DRY_RUN cfg"
  then have "risk_ok cfg brk symbol 0 =
      ([Log INFO ''OFFLINE_MODE=true -> skipping broker risk checks'' []], Inr True)"
    by (simp add: risk_ok_offline)
  from place_equity_market_admitted [OF this] z
  show "snd (place_equity_market cfg brk symbol 0) =
                Inr (PDict [(''status'', PStr ''simulated''),
                            (''payload'', order_payload cfg symbol 0)])"
    by simp
  show "dict_lookup (order_payload cfg symbol 0) ''quantity'' = Some (PInt 0)"
    by (simp add: order_payload_def dict_lookup_def)
  show "dict_lookup (order_payload cfg symbol 0) ''instruction'' = Some (PStr ''Sell'')"
    by (simp add: order_payload_def dict_lookup_def)
qed

theorem payload_witness:
  "fst (place_equity_market example_config example_broker ''AAPL'' 10) =
     [Call_check_risk_limits,
      Log INFO ''Placing market order: %s'' [order_payload example_config ''AAPL'' 10],
      Call_api_post ''/v1/accounts/orders'' (order_payload example_config ''AAPL'' 10)]
   \<and> dict_lookup (order_payload example_config ''AAPL'' 10) ''quantity'' = Some (PInt 10)
   \<and> dict_lookup (order_payload example_config ''AAPL'' 10) ''instruction'' = Some (PStr ''Buy'')
   \<and> snd (place_equity_market (example_config\<lparr>OFFLINE_MODE := True, DRY_RUN := True\<rparr>)
            example_broker ''AAPL'' 0) =
       Inr (PDict [(''status'', PStr ''simulated''),
                   (''payload'',
                    PDict [(''accountId'', PStr ''ACC1''), (''orderType'', PStr ''Market''),
                           (''instrument'', PDict [(''symbol'', PStr ''AAPL''), (''assetType'', PStr ''EQ'')]),
                           (''quantity'', PInt 0), (''instruction'', PStr ''Sell'')])])"
proof -
  have a: "risk_ok (example_config\<lparr>OFFLINE_MODE := True, DRY_RUN := True\<rparr>) example_broker ''AAPL'' 10 =
      ([Log INFO ''OFFLINE_MODE=true -> skipping broker risk checks'' []], Inr True)"
    by (simp add: risk_ok_def example_config_def)
  show ?thesis
    using payload_quantity_absolute_instruction_by_sign [OF example_risk_ok, of "''AAPL''"]
      payload_quantity_absolute_instruction_by_sign [OF a]
    by (simp add: example_config_def order_payload_def)
qed

section \<open>ATR sizing: the minimum quantity\<close>

text \<open>
  Claim C8. \<open>place_equity_size_by_atr\<close> asks \<open>position_size_by_atr\<close> for the quantity
  (the floor of risk amount over stop distance is computed there), logs it, and always
  goes on to \<open>place_equity_market\<close>: with quantity 1 when the computed quantity is 0 or
  negative, and with the computed quantity unchanged when it is positive. The trade is
  not skipped: live, and with the risk check passing for quantity 1, an order for 1
  share is posted.
\<close>

theorem atr_sizing_substitutes_minimum_quantity:
  assumes "position_size_by_atr symbol risk_per_trade stop_atr_mult = Inr qty"
  shows "(qty \<le> 0 \<longrightarrow>
            place_equity_size_by_atr cfg brk position_size_by_atr symbol risk_per_trade stop_atr_mult =
              ([Call_position_size_by_atr symbol,
                Log INFO ''Computed qty=%s by ATR sizing for %s'' [PInt qty, PStr symbol]]
               @ fst (place_equity_market cfg brk symbol 1),
               snd (place_equity_market cfg brk symbol 1)))
       \<and> (qty > 0 \<longrightarrow>
            place_equity_size_by_atr cfg brk position_size_by_atr symbol risk_per_trade stop_atr_mult =
              ([Call_position_size_by_atr symbol,
                Log INFO ''Computed qty=%s by ATR sizing for %s'' [PInt qty, PStr symbol]]
               @ fst (place_equity_market cfg brk symbol qty),
               snd (place_equity_market cfg brk symbol qty)))
       \<and> (qty \<le> 0 \<and> \<not> DRY_RUN cfg \<and> snd (risk_ok cfg brk symbol 1) = Inr True \<longrightarrow>
            Call_api_post ''/v1/accounts/orders'' (order_payload cfg symbol 1) \<in>
              set (fst (place_equity_size_by_atr cfg brk position_size_by_atr symbol
                          risk_per_trade stop_atr_mult))
            \<and> dict_lookup (order_payload cfg symbol 1) ''quantity'' = Some (PInt 1)
            \<and> dict_lookup (order_payload cfg symbol 1) ''instruction'' = Some (PStr ''Buy''))"
proof (intro conjI impI)
  assume "qty \<le> 0"
  then show "place_equity_size_by_atr cfg brk position_size_by_atr symbol risk_per_trade stop_atr_mult =
              ([Call_position_size_by_atr symbol,
                Log INFO ''Computed qty=%s by ATR sizing for %s'' [PInt qty, PStr symbol]]
               @ fst (place_equity_market cfg brk symbol 1),
               snd (place_equity_market cfg brk symbol 1))"
    using assms by (simp add: place_equity_size_by_atr_def split: prod.splits)
next
  assume "qty > 0"
  then show "place_equity_size_by_atr cfg brk position_size_by_atr symbol risk_per_trade stop_atr_mult =
              ([Call_position_size_by_atr symbol,
                Log INFO ''Computed qty=%s by ATR sizing for %s'' [PInt qty, PStr symbol]]
               @ fst (place_equity_market cfg brk symbol qty),
               snd (place_equity_market cfg brk symbol qty))"
    using assms by (simp add: place_equity_size_by_atr_def split: prod.splits)
next
  assume h: "qty \<le> 0 \<and> \<not> DRY_RUN cfg \<and> snd (risk_ok cfg brk symbol 1) = Inr True"
  have sized: "fst (place_equity_size_by_atr cfg brk position_size_by_atr symbol risk_per_trade stop_atr_mult) =
              [Call_position_size_by_atr symbol,
               Log INFO ''Computed qty=%s by ATR sizing for %s'' [PInt qty, PStr symbol]]
              @ fst (place_equity_market cfg brk symbol 1)"
    using assms h by (simp add: place_equity_size_by_atr_def split: prod.splits)
  have "risk_ok cfg brk symbol 1 = (fst (risk_ok cfg brk symbol 1), Inr True)"
    using h by (simp add: prod_eq_iff)
  from place_equity_market_admitted [OF this] h
  have "Call_api_post ''/v1/accounts/orders'' (order_payload cfg symbol 1) \<in>
          set (fst (place_equity_market cfg brk symbol 1))"
    by simp
  then show "Call_api_post ''/v1/accounts/orders'' (order_payload cfg symbol 1) \<in>
              set (fst (place_equity_size_by_atr cfg brk position_size_by_atr symbol
                          risk_per_trade stop_atr_mult))"
    unfolding sized by simp
  show "dict_lookup (order_payload cfg symbol 1) ''quantity'' = Some (PInt 1)"
    by (simp add: order_payload_def dict_lookup_def)
  show "dict_lookup (order_payload cfg symbol 1) ''instruction'' = Some (PStr ''Buy'')"
    by (simp add: order_payload_def dict_lookup_def)
qed

theorem atr_sizing_witness:
  "place_equity_size_by_atr example_config example_broker
     (\<lambda>symbol (risk_per_trade :: unit) (stop_atr_mult :: unit). Inr 0) ''AAPL'' () () =
   ([Call_position_size_by_atr ''AAPL'',
     Log INFO ''Computed qty=%s by ATR sizing for %s'' [PInt 0, PStr ''AAPL''],
     Call_check_risk_limits,
     Log INFO ''Placing market order: %s'' [order_payload example_config ''AAPL'' 1],
     Call_api_post ''/v1/accounts/orders'' (order_payload example_config ''AAPL'' 1)],
    Inr (PDict [(''orderId'', PInt 1)]))
   \<and> dict_lookup (order_payload example_config ''AAPL'' 1) ''quantity'' = Some (PInt 1)"
proof -
  have live: "\<not> DRY_RUN example_config" by (simp add: example_config_def)
  have pem: "place_equity_market example_config example_broker ''AAPL'' 1 =
    ([Call_check_risk_limits,
     Log INFO ''Placing market order: %s'' [order_payload example_config ''AAPL'' 1],
     Call_api_post ''/v1/accounts/orders'' (order_payload example_config ''AAPL'' 1)],
    Inr (PDict [(''orderId'', PInt 1)]))"
    using place_equity_market_admitted [OF example_risk_ok_one, of "''AAPL''"] live
    by (simp add: example_broker_def)
  show ?thesis
    using atr_sizing_substitutes_minimum_quantity
      [where position_size_by_atr = "\<lambda>symbol (risk_per_trade :: unit) (stop_atr_mult :: unit). Inr 0"
         and symbol = "''AAPL''" and risk_per_trade = "()" and stop_atr_mult = "()" and qty = 0
         and cfg = example_config and brk = example_broker]
    by (simp add: pem example_risk_ok_one live)
qed

end
